theory Spec2Isabelle
  imports Complex_Main "HOL-Library.AList"
begin

section \<open>Python values and exceptions\<close>

text \<open>
  The dataclasses of \<^verbatim>\<open>models.py\<close> do not check their annotations, so a field can hold
  any Python value. \<open>pyval\<close> is the fragment of Python values that the storage layer
  meets: the JSON values (dictionaries keyed by strings, kept in insertion order) and
  \<open>POther\<close>, an opaque object (such as \<^verbatim>\<open>object()\<close>): it is true, it cannot be iterated
  or indexed, and neither \<^verbatim>\<open>json.dumps\<close> nor \<^verbatim>\<open>sqlite3\<close> accepts it. Floats are the
  finite ones, as reals.
\<close>

datatype pyval =
    PNone
  | PBool bool
  | PInt int
  | PFloat real
  | PStr string
  | PList "pyval list"
  | PDict "(string \<times> pyval) list"
  | POther nat

datatype error =
    TypeError
  | KeyError
  | AttributeError
  | ValueError
  | OverflowError
  | OSError
  | JSONDecodeError
  | IntegrityError
  | ProgrammingError
  | DatabaseError

text \<open>\<^verbatim>\<open>d.get(k, default)\<close> on a dictionary.\<close>

definition dict_get :: "(string \<times> pyval) list \<Rightarrow> string \<Rightarrow> pyval \<Rightarrow> pyval" where
  "dict_get kvs k d = (case map_of kvs k of Some v \<Rightarrow> v | None \<Rightarrow> d)"

text \<open>\<^verbatim>\<open>d[k]\<close> on a dictionary raises KeyError on a missing key.\<close>

definition dict_item :: "(string \<times> pyval) list \<Rightarrow> string \<Rightarrow> error + pyval" where
  "dict_item kvs k = (case map_of kvs k of Some v \<Rightarrow> Inr v | None \<Rightarrow> Inl KeyError)"

text \<open>Python truthiness (\<^verbatim>\<open>bool(v)\<close>, \<^verbatim>\<open>not v\<close>, \<^verbatim>\<open>if v\<close>).\<close>

fun truthy :: "pyval \<Rightarrow> bool" where
  "truthy PNone = False"
| "truthy (PBool b) = b"
| "truthy (PInt i) = (i \<noteq> 0)"
| "truthy (PFloat r) = (r \<noteq> 0)"
| "truthy (PStr s) = (s \<noteq> [])"
| "truthy (PList xs) = (xs \<noteq> [])"
| "truthy (PDict kvs) = (kvs \<noteq> [])"
| "truthy (POther n) = True"

section \<open>models.py: the entities and their codec\<close>

record Task =
  task_id :: pyval
  title :: pyval
  description :: pyval
  priority :: pyval
  status :: pyval
  created_at :: pyval
  updated_at :: pyval
  due_date :: pyval
  completed_at :: pyval
  categories :: pyval
  tags :: pyval
  is_recurring :: pyval
  recurrence_type :: pyval
  recurrence_interval :: pyval
  last_recurrence :: pyval
  depends_on :: pyval
  blocked_by :: pyval
  time_entries :: pyval
  estimated_minutes :: pyval
  is_template :: pyval
  template_name :: pyval
  reminder_before_minutes :: pyval
  last_reminded :: pyval

text \<open>
  \<^verbatim>\<open>Task()\<close>: the declared defaults. The three default factories that read the
  environment (\<^verbatim>\<open>uuid.uuid4()\<close> and two calls of \<^verbatim>\<open>datetime.now().isoformat()\<close>) are
  given as arguments.
\<close>

definition Task_default :: "string \<Rightarrow> string \<Rightarrow> string \<Rightarrow> Task" where
  "Task_default uuid now1 now2 = \<lparr>
     task_id = PStr uuid,
     title = PStr '''',
     description = PStr '''',
     priority = PStr ''medium'',
     status = PStr ''pending'',
     created_at = PStr now1,
     updated_at = PStr now2,
     due_date = PNone,
     completed_at = PNone,
     categories = PList [],
     tags = PList [],
     is_recurring = PBool False,
     recurrence_type = PNone,
     recurrence_interval = PInt 1,
     last_recurrence = PNone,
     depends_on = PList [],
     blocked_by = PList [],
     time_entries = PList [],
     estimated_minutes = PNone,
     is_template = PBool False,
     template_name = PNone,
     reminder_before_minutes = PNone,
     last_reminded = PNone \<rparr>"

definition Task_fields :: "string list" where
  "Task_fields = [''id'', ''title'', ''description'', ''priority'', ''status'',
     ''created_at'', ''updated_at'', ''due_date'', ''completed_at'', ''categories'',
     ''tags'', ''is_recurring'', ''recurrence_type'', ''recurrence_interval'',
     ''last_recurrence'', ''depends_on'', ''blocked_by'', ''time_entries'',
     ''estimated_minutes'', ''is_template'', ''template_name'',
     ''reminder_before_minutes'', ''last_reminded'']"

text \<open>\<^verbatim>\<open>Task.to_dict\<close>: \<^verbatim>\<open>asdict(self)\<close>, every field in declaration order.\<close>

definition Task_to_dict :: "Task \<Rightarrow> pyval" where
  "Task_to_dict t = PDict [
     (''id'', task_id t), (''title'', title t), (''description'', description t),
     (''priority'', priority t), (''status'', status t), (''created_at'', created_at t),
     (''updated_at'', updated_at t), (''due_date'', due_date t),
     (''completed_at'', completed_at t), (''categories'', categories t),
     (''tags'', tags t), (''is_recurring'', is_recurring t),
     (''recurrence_type'', recurrence_type t),
     (''recurrence_interval'', recurrence_interval t),
     (''last_recurrence'', last_recurrence t), (''depends_on'', depends_on t),
     (''blocked_by'', blocked_by t), (''time_entries'', time_entries t),
     (''estimated_minutes'', estimated_minutes t), (''is_template'', is_template t),
     (''template_name'', template_name t),
     (''reminder_before_minutes'', reminder_before_minutes t),
     (''last_reminded'', last_reminded t)]"

text \<open>
  \<^verbatim>\<open>Task.from_dict\<close>: \<^verbatim>\<open>cls(**data)\<close>. The argument must be a mapping; a key that is not a
  field is an unexpected keyword argument (TypeError); a field without a key takes its
  default, here the field of \<open>dflt\<close>. No value is checked against its annotation.
\<close>

definition Task_from_dict :: "Task \<Rightarrow> pyval \<Rightarrow> error + Task" where
  "Task_from_dict dflt data =
     (case data of
        PDict kvs \<Rightarrow>
          if list_all (\<lambda>k. k \<in> set Task_fields) (map fst kvs) then
            Inr \<lparr>
              task_id = dict_get kvs ''id'' (task_id dflt),
              title = dict_get kvs ''title'' (title dflt),
              description = dict_get kvs ''description'' (description dflt),
              priority = dict_get kvs ''priority'' (priority dflt),
              status = dict_get kvs ''status'' (status dflt),
              created_at = dict_get kvs ''created_at'' (created_at dflt),
              updated_at = dict_get kvs ''updated_at'' (updated_at dflt),
              due_date = dict_get kvs ''due_date'' (due_date dflt),
              completed_at = dict_get kvs ''completed_at'' (completed_at dflt),
              categories = dict_get kvs ''categories'' (categories dflt),
              tags = dict_get kvs ''tags'' (tags dflt),
              is_recurring = dict_get kvs ''is_recurring'' (is_recurring dflt),
              recurrence_type = dict_get kvs ''recurrence_type'' (recurrence_type dflt),
              recurrence_interval =
                dict_get kvs ''recurrence_interval'' (recurrence_interval dflt),
              last_recurrence = dict_get kvs ''last_recurrence'' (last_recurrence dflt),
              depends_on = dict_get kvs ''depends_on'' (depends_on dflt),
              blocked_by = dict_get kvs ''blocked_by'' (blocked_by dflt),
              time_entries = dict_get kvs ''time_entries'' (time_entries dflt),
              estimated_minutes =
                dict_get kvs ''estimated_minutes'' (estimated_minutes dflt),
              is_template = dict_get kvs ''is_template'' (is_template dflt),
              template_name = dict_get kvs ''template_name'' (template_name dflt),
              reminder_before_minutes =
                dict_get kvs ''reminder_before_minutes'' (reminder_before_minutes dflt),
              last_reminded = dict_get kvs ''last_reminded'' (last_reminded dflt) \<rparr>
          else Inl TypeError
      | _ \<Rightarrow> Inl TypeError)"


record TimeEntry =
  te_id :: pyval
  te_start_time :: pyval
  te_end_time :: pyval
  te_duration_minutes :: pyval
  te_notes :: pyval

definition TimeEntry_default :: "string \<Rightarrow> string \<Rightarrow> TimeEntry" where
  "TimeEntry_default uuid now = \<lparr>
     te_id = PStr uuid, te_start_time = PStr now, te_end_time = PNone,
     te_duration_minutes = PFloat 0, te_notes = PStr '''' \<rparr>"

definition TimeEntry_fields :: "string list" where
  "TimeEntry_fields = [''id'', ''start_time'', ''end_time'', ''duration_minutes'', ''notes'']"

definition TimeEntry_to_dict :: "TimeEntry \<Rightarrow> pyval" where
  "TimeEntry_to_dict e = PDict [
     (''id'', te_id e), (''start_time'', te_start_time e), (''end_time'', te_end_time e),
     (''duration_minutes'', te_duration_minutes e), (''notes'', te_notes e)]"

definition TimeEntry_from_dict :: "TimeEntry \<Rightarrow> pyval \<Rightarrow> error + TimeEntry" where
  "TimeEntry_from_dict dflt data =
     (case data of
        PDict kvs \<Rightarrow>
          if list_all (\<lambda>k. k \<in> set TimeEntry_fields) (map fst kvs) then
            Inr \<lparr>
              te_id = dict_get kvs ''id'' (te_id dflt),
              te_start_time = dict_get kvs ''start_time'' (te_start_time dflt),
              te_end_time = dict_get kvs ''end_time'' (te_end_time dflt),
              te_duration_minutes =
                dict_get kvs ''duration_minutes'' (te_duration_minutes dflt),
              te_notes = dict_get kvs ''notes'' (te_notes dflt) \<rparr>
          else Inl TypeError
      | _ \<Rightarrow> Inl TypeError)"

record TaskTemplate =
  tpl_id :: pyval
  tpl_name :: pyval
  tpl_title :: pyval
  tpl_description :: pyval
  tpl_priority :: pyval
  tpl_categories :: pyval
  tpl_tags :: pyval
  tpl_estimated_minutes :: pyval
  tpl_reminder_before_minutes :: pyval

definition TaskTemplate_default :: "string \<Rightarrow> TaskTemplate" where
  "TaskTemplate_default uuid = \<lparr>
     tpl_id = PStr uuid, tpl_name = PStr '''', tpl_title = PStr '''',
     tpl_description = PStr '''', tpl_priority = PStr ''medium'',
     tpl_categories = PList [], tpl_tags = PList [],
     tpl_estimated_minutes = PNone, tpl_reminder_before_minutes = PNone \<rparr>"

definition TaskTemplate_fields :: "string list" where
  "TaskTemplate_fields = [''id'', ''name'', ''title'', ''description'', ''priority'',
     ''categories'', ''tags'', ''estimated_minutes'', ''reminder_before_minutes'']"


definition TaskTemplate_from_dict :: "TaskTemplate \<Rightarrow> pyval \<Rightarrow> error + TaskTemplate" where
  "TaskTemplate_from_dict dflt data =
     (case data of
        PDict kvs \<Rightarrow>
          if list_all (\<lambda>k. k \<in> set TaskTemplate_fields) (map fst kvs) then
            Inr \<lparr>
              tpl_id = dict_get kvs ''id'' (tpl_id dflt),
              tpl_name = dict_get kvs ''name'' (tpl_name dflt),
              tpl_title = dict_get kvs ''title'' (tpl_title dflt),
              tpl_description = dict_get kvs ''description'' (tpl_description dflt),
              tpl_priority = dict_get kvs ''priority'' (tpl_priority dflt),
              tpl_categories = dict_get kvs ''categories'' (tpl_categories dflt),
              tpl_tags = dict_get kvs ''tags'' (tpl_tags dflt),
              tpl_estimated_minutes =
                dict_get kvs ''estimated_minutes'' (tpl_estimated_minutes dflt),
              tpl_reminder_before_minutes =
                dict_get kvs ''reminder_before_minutes'' (tpl_reminder_before_minutes dflt) \<rparr>
          else Inl TypeError
      | _ \<Rightarrow> Inl TypeError)"

section \<open>storage.py: the document store\<close>

text \<open>
  A storage file is kept as what \<^verbatim>\<open>json.loads(path.read_text())\<close> makes of it: the file
  cannot be read (\<open>Missing\<close>), its text is not JSON (\<open>Garbage\<close>), or its text denotes
  a JSON value. The text layer of the \<^verbatim>\<open>json\<close> module is not part of the model.
\<close>

datatype file_content = Missing | Garbage | Doc pyval

record JSONStorage =
  filepath :: file_content
  templates_filepath :: file_content

definition read_json :: "file_content \<Rightarrow> error + pyval" where
  "read_json f = (case f of Missing \<Rightarrow> Inl OSError | Garbage \<Rightarrow> Inl JSONDecodeError | Doc v \<Rightarrow> Inr v)"

text \<open>\<^verbatim>\<open>json.dumps\<close> raises TypeError on an object that is not a JSON value.\<close>

fun encodable :: "pyval \<Rightarrow> bool" where
  "encodable (PList xs) = list_all encodable xs"
| "encodable (PDict kvs) = list_all encodable (map snd kvs)"
| "encodable (POther n) = False"
| "encodable v = True"

definition json_dumps :: "pyval \<Rightarrow> error + pyval" where
  "json_dumps v = (if encodable v then Inr v else Inl TypeError)"

text \<open>
  \<^verbatim>\<open>Path.write_text\<close> opens the file for writing, which empties it, and then writes.
  What the file system does is the environment's choice: the write succeeds, the file
  cannot be opened (it is left as it was), or the write fails after the file was opened
  (an empty or cut-off text is left, which is not JSON).
\<close>

datatype write_outcome = Written | OpenFailed | WriteFailed

definition write_text :: "write_outcome \<Rightarrow> file_content \<Rightarrow> pyval \<Rightarrow> file_content \<times> (error + unit)" where
  "write_text w f v =
     (case w of
        Written \<Rightarrow> (Doc v, Inr ())
      | OpenFailed \<Rightarrow> (f, Inl OSError)
      | WriteFailed \<Rightarrow> (Garbage, Inl OSError))"

text \<open>\<^verbatim>\<open>data.get(key, {})\<close> and \<^verbatim>\<open>.items()\<close>: only a dictionary has these methods.\<close>

definition py_get :: "pyval \<Rightarrow> string \<Rightarrow> pyval \<Rightarrow> error + pyval" where
  "py_get data k d = (case data of PDict kvs \<Rightarrow> Inr (dict_get kvs k d) | _ \<Rightarrow> Inl AttributeError)"

definition py_items :: "pyval \<Rightarrow> error + (string \<times> pyval) list" where
  "py_items data = (case data of PDict kvs \<Rightarrow> Inr kvs | _ \<Rightarrow> Inl AttributeError)"

text \<open>
  The loop of \<open>load_tasks\<close>: \<^verbatim>\<open>tasks[task_id] = Task.from_dict(task_data)\<close> for every
  item, in order; the first exception leaves the loop. \<open>dflt k\<close> holds the values the
  default factories produce while the record under key \<open>k\<close> is decoded.
\<close>

fun decode_tasks ::
  "(string \<Rightarrow> Task) \<Rightarrow> (string \<times> pyval) list \<Rightarrow> (string \<times> Task) list \<Rightarrow> error + (string \<times> Task) list" where
  "decode_tasks dflt [] tasks = Inr tasks"
| "decode_tasks dflt ((k, d) # rest) tasks =
     (case Task_from_dict (dflt k) d of
        Inl e \<Rightarrow> Inl e
      | Inr t \<Rightarrow> decode_tasks dflt rest (AList.update k t tasks))"


text \<open>The body of the \<^verbatim>\<open>try\<close> block of \<open>JSONStorage.load_tasks\<close>.\<close>

definition JSON_load_tasks_try :: "(string \<Rightarrow> Task) \<Rightarrow> JSONStorage \<Rightarrow> error + (string \<times> Task) list" where
  "JSON_load_tasks_try dflt st =
     (case read_json (filepath st) of
        Inl e \<Rightarrow> Inl e
      | Inr data \<Rightarrow>
          (case py_get data ''tasks'' (PDict []) of
             Inl e \<Rightarrow> Inl e
           | Inr ts \<Rightarrow>
               (case py_items ts of
                  Inl e \<Rightarrow> Inl e
                | Inr its \<Rightarrow> decode_tasks dflt its [])))"

text \<open>
  \<open>JSONStorage.load_tasks\<close>: \<open>Inl\<close> would be an exception reaching the caller;
  \<^verbatim>\<open>except Exception\<close> turns every exception of the body into the empty mapping.
\<close>

definition JSON_load_tasks :: "(string \<Rightarrow> Task) \<Rightarrow> JSONStorage \<Rightarrow> error + (string \<times> Task) list" where
  "JSON_load_tasks dflt st =
     (case JSON_load_tasks_try dflt st of Inl e \<Rightarrow> Inr [] | Inr tasks \<Rightarrow> Inr tasks)"

text \<open>
  \<open>JSONStorage.save_tasks\<close>: the document is built and encoded before
  \<open>write_text\<close> is called. The result is the storage afterwards and the returned value.
\<close>

definition JSON_save_tasks_try ::
  "write_outcome \<Rightarrow> JSONStorage \<Rightarrow> (string \<times> Task) list \<Rightarrow> JSONStorage \<times> (error + bool)" where
  "JSON_save_tasks_try w st tasks =
     (case json_dumps (PDict [(''tasks'', PDict (map (\<lambda>(k, t). (k, Task_to_dict t)) tasks))]) of
        Inl e \<Rightarrow> (st, Inl e)
      | Inr text \<Rightarrow>
          (case write_text w (filepath st) text of
             (f, Inl e) \<Rightarrow> (st\<lparr>filepath := f\<rparr>, Inl e)
           | (f, Inr u) \<Rightarrow> (st\<lparr>filepath := f\<rparr>, Inr True)))"

definition JSON_save_tasks ::
  "write_outcome \<Rightarrow> JSONStorage \<Rightarrow> (string \<times> Task) list \<Rightarrow> JSONStorage \<times> (error + bool)" where
  "JSON_save_tasks w st tasks =
     (case JSON_save_tasks_try w st tasks of
        (st', Inl e) \<Rightarrow> (st', Inr False)
      | (st', Inr b) \<Rightarrow> (st', Inr b))"





section \<open>storage.py: the relational store\<close>

text \<open>
  A table is the list of its rows in insertion order, which is the order in which SQLite
  scans a table for the unordered \<^verbatim>\<open>SELECT\<close>s of this file; a row is what
  \<^verbatim>\<open>dict(row)\<close> gives, the column names with their values. The database is what the
  connection sees between two calls of the storage operations, when no transaction is
  open. Foreign keys are declared but never switched on (no \<^verbatim>\<open>PRAGMA foreign_keys\<close>),
  so they constrain nothing. \<open>readable\<close> is False when the database file is corrupt or
  its tables are gone: every statement then raises \<^verbatim>\<open>sqlite3.DatabaseError\<close>.
\<close>

type_synonym row = "(string \<times> pyval) list"

record SQLiteDB =
  readable :: bool
  tbl_tasks :: "row list"
  tbl_task_categories :: "row list"
  tbl_task_tags :: "row list"
  tbl_task_dependencies :: "row list"
  tbl_time_entries :: "row list"
  tbl_templates :: "row list"
  tbl_template_categories :: "row list"
  tbl_template_tags :: "row list"

datatype affinity = TText | TInteger | TReal

text \<open>
  Two library functions are parameters of the model: the conversion SQLite applies to a
  value whose storage class differs from the affinity of its column, and Python's
  \<^verbatim>\<open>int()\<close> on a string.
\<close>

record engine =
  coerce :: "affinity \<Rightarrow> pyval \<Rightarrow> pyval"
  int_of_str :: "string \<Rightarrow> int option"

definition tasks_columns :: "(string \<times> affinity) list" where
  "tasks_columns = [(''id'', TText), (''title'', TText), (''description'', TText),
     (''priority'', TText), (''status'', TText), (''created_at'', TText),
     (''updated_at'', TText), (''due_date'', TText), (''completed_at'', TText),
     (''is_recurring'', TInteger), (''recurrence_type'', TText),
     (''recurrence_interval'', TInteger), (''last_recurrence'', TText),
     (''estimated_minutes'', TInteger), (''is_template'', TInteger),
     (''template_name'', TText), (''reminder_before_minutes'', TInteger),
     (''last_reminded'', TText)]"

definition task_categories_columns :: "(string \<times> affinity) list" where
  "task_categories_columns = [(''task_id'', TText), (''category'', TText)]"

definition task_tags_columns :: "(string \<times> affinity) list" where
  "task_tags_columns = [(''task_id'', TText), (''tag'', TText)]"

definition task_dependencies_columns :: "(string \<times> affinity) list" where
  "task_dependencies_columns = [(''task_id'', TText), (''depends_on_id'', TText)]"

definition time_entries_columns :: "(string \<times> affinity) list" where
  "time_entries_columns = [(''id'', TText), (''task_id'', TText), (''start_time'', TText),
     (''end_time'', TText), (''duration_minutes'', TReal), (''notes'', TText)]"




text \<open>
  Binding a \<^verbatim>\<open>?\<close> parameter: \<^verbatim>\<open>sqlite3\<close> takes None, int (a bool is an int), float and
  str; an int outside 64 bits raises OverflowError, any other type is not supported.
\<close>

definition bind_param :: "pyval \<Rightarrow> error + pyval" where
  "bind_param v =
     (case v of
        PNone \<Rightarrow> Inr PNone
      | PBool b \<Rightarrow> Inr (PInt (if b then 1 else 0))
      | PInt i \<Rightarrow> if - (2 ^ 63) \<le> i \<and> i < 2 ^ 63 then Inr (PInt i) else Inl OverflowError
      | PFloat r \<Rightarrow> Inr (PFloat r)
      | PStr s \<Rightarrow> Inr (PStr s)
      | _ \<Rightarrow> Inl ProgrammingError)"

fun bind_all :: "pyval list \<Rightarrow> error + pyval list" where
  "bind_all [] = Inr []"
| "bind_all (v # vs) =
     (case bind_param v of
        Inl e \<Rightarrow> Inl e
      | Inr x \<Rightarrow> (case bind_all vs of Inl e \<Rightarrow> Inl e | Inr xs \<Rightarrow> Inr (x # xs)))"

text \<open>The value a column of the given affinity keeps for a bound value.\<close>

definition store :: "engine \<Rightarrow> affinity \<Rightarrow> pyval \<Rightarrow> pyval" where
  "store eng aff v =
     (case v of
        PNone \<Rightarrow> PNone
      | PStr s \<Rightarrow> if aff = TText then v else coerce eng aff v
      | PInt i \<Rightarrow> if aff = TInteger then v else coerce eng aff v
      | PFloat r \<Rightarrow> if aff = TReal then v else coerce eng aff v
      | _ \<Rightarrow> coerce eng aff v)"

text \<open>The row that \<^verbatim>\<open>INSERT INTO t VALUES (?, ..., ?)\<close> builds from its parameters.\<close>

definition make_row :: "engine \<Rightarrow> (string \<times> affinity) list \<Rightarrow> pyval list \<Rightarrow> error + row" where
  "make_row eng cols params =
     (case bind_all params of
        Inl e \<Rightarrow> Inl e
      | Inr vs \<Rightarrow> Inr (zip (map fst cols) (map2 (store eng) (map snd cols) vs)))"

text \<open>SQL equality: NULL equals nothing.\<close>

definition sql_eq :: "pyval \<Rightarrow> pyval \<Rightarrow> bool" where
  "sql_eq a b = (a \<noteq> PNone \<and> b \<noteq> PNone \<and> a = b)"

definition column :: "row \<Rightarrow> string \<Rightarrow> pyval" where
  "column r c = dict_get r c PNone"

text \<open>A PRIMARY KEY or UNIQUE column: no row of the table has the same value.\<close>

definition unique_ok :: "row list \<Rightarrow> string \<Rightarrow> row \<Rightarrow> bool" where
  "unique_ok rows c r = list_all (\<lambda>r'. \<not> sql_eq (column r' c) (column r c)) rows"

definition not_null_ok :: "string \<Rightarrow> row \<Rightarrow> bool" where
  "not_null_ok c r = (column r c \<noteq> PNone)"

text \<open>\<^verbatim>\<open>int(v)\<close>, \<^verbatim>\<open>for x in v\<close>.\<close>

definition py_int :: "engine \<Rightarrow> pyval \<Rightarrow> error + pyval" where
  "py_int eng v =
     (case v of
        PBool b \<Rightarrow> Inr (PInt (if b then 1 else 0))
      | PInt i \<Rightarrow> Inr (PInt i)
      | PFloat r \<Rightarrow> Inr (PInt (if 0 \<le> r then \<lfloor>r\<rfloor> else \<lceil>r\<rceil>))
      | PStr s \<Rightarrow> (case int_of_str eng s of Some i \<Rightarrow> Inr (PInt i) | None \<Rightarrow> Inl ValueError)
      | _ \<Rightarrow> Inl TypeError)"

definition py_iter :: "pyval \<Rightarrow> error + pyval list" where
  "py_iter v =
     (case v of
        PList xs \<Rightarrow> Inr xs
      | PStr s \<Rightarrow> Inr (map (\<lambda>c. PStr [c]) s)
      | PDict kvs \<Rightarrow> Inr (map (\<lambda>kv. PStr (fst kv)) kvs)
      | _ \<Rightarrow> Inl TypeError)"

text \<open>
  The loops \<^verbatim>\<open>for x in xs: cursor.execute("INSERT INTO t VALUES (?, ?)", (owner.id, x))\<close>
  that fill the child tables of categories, tags and dependencies.
\<close>

fun insert_pairs ::
  "engine \<Rightarrow> (string \<times> affinity) list \<Rightarrow> pyval \<Rightarrow> pyval list \<Rightarrow> row list \<Rightarrow> error + row list" where
  "insert_pairs eng cols owner [] rows = Inr rows"
| "insert_pairs eng cols owner (x # xs) rows =
     (case make_row eng cols [owner, x] of
        Inl e \<Rightarrow> Inl e
      | Inr r \<Rightarrow> insert_pairs eng cols owner xs (rows @ [r]))"

text \<open>
  The loop over \<open>task.time_entries\<close>: \<^verbatim>\<open>entry['id']\<close>, \<^verbatim>\<open>entry['start_time']\<close> and
  \<^verbatim>\<open>entry['duration_minutes']\<close> raise on a missing key, \<^verbatim>\<open>entry.get\<close> does not;
  \<open>time_entries.id\<close> is the primary key.
\<close>

fun insert_time_entries :: "engine \<Rightarrow> pyval \<Rightarrow> pyval list \<Rightarrow> row list \<Rightarrow> error + row list" where
  "insert_time_entries eng owner [] rows = Inr rows"
| "insert_time_entries eng owner (entry # es) rows =
     (case entry of
        PDict kvs \<Rightarrow>
          (case dict_item kvs ''id'' of
             Inl e \<Rightarrow> Inl e
           | Inr eid \<Rightarrow>
          (case dict_item kvs ''start_time'' of
             Inl e \<Rightarrow> Inl e
           | Inr st \<Rightarrow>
          (case dict_item kvs ''duration_minutes'' of
             Inl e \<Rightarrow> Inl e
           | Inr dur \<Rightarrow>
          (case make_row eng time_entries_columns
                  [eid, owner, st, dict_get kvs ''end_time'' PNone, dur,
                   dict_get kvs ''notes'' (PStr [])] of
             Inl e \<Rightarrow> Inl e
           | Inr r \<Rightarrow>
               if unique_ok rows ''id'' r then insert_time_entries eng owner es (rows @ [r])
               else Inl IntegrityError))))
      | _ \<Rightarrow> Inl TypeError)"

text \<open>One round of the loop of \<open>SQLiteStorage.save_tasks\<close>.\<close>

definition save_task :: "engine \<Rightarrow> SQLiteDB \<Rightarrow> Task \<Rightarrow> error + SQLiteDB" where
  "save_task eng db task =
     (case py_int eng (is_recurring task) of
        Inl e \<Rightarrow> Inl e
      | Inr recurring \<Rightarrow>
     (case py_int eng (is_template task) of
        Inl e \<Rightarrow> Inl e
      | Inr template \<Rightarrow>
     (case make_row eng tasks_columns
             [task_id task, title task, description task, priority task, status task,
              created_at task, updated_at task, due_date task, completed_at task,
              recurring, recurrence_type task, recurrence_interval task,
              last_recurrence task, estimated_minutes task, template,
              template_name task, reminder_before_minutes task, last_reminded task] of
        Inl e \<Rightarrow> Inl e
      | Inr r \<Rightarrow>
          if \<not> (not_null_ok ''title'' r \<and> unique_ok (tbl_tasks db) ''id'' r) then Inl IntegrityError
          else
     (case py_iter (categories task) of
        Inl e \<Rightarrow> Inl e
      | Inr cs \<Rightarrow>
     (case insert_pairs eng task_categories_columns (task_id task) cs (tbl_task_categories db) of
        Inl e \<Rightarrow> Inl e
      | Inr tc \<Rightarrow>
     (case py_iter (tags task) of
        Inl e \<Rightarrow> Inl e
      | Inr ts \<Rightarrow>
     (case insert_pairs eng task_tags_columns (task_id task) ts (tbl_task_tags db) of
        Inl e \<Rightarrow> Inl e
      | Inr tt \<Rightarrow>
     (case py_iter (depends_on task) of
        Inl e \<Rightarrow> Inl e
      | Inr ds \<Rightarrow>
     (case insert_pairs eng task_dependencies_columns (task_id task) ds (tbl_task_dependencies db) of
        Inl e \<Rightarrow> Inl e
      | Inr td \<Rightarrow>
     (case py_iter (time_entries task) of
        Inl e \<Rightarrow> Inl e
      | Inr es \<Rightarrow>
     (case insert_time_entries eng (task_id task) es (tbl_time_entries db) of
        Inl e \<Rightarrow> Inl e
      | Inr te \<Rightarrow>
          Inr (db\<lparr>tbl_tasks := tbl_tasks db @ [r], tbl_task_categories := tc,
                  tbl_task_tags := tt, tbl_task_dependencies := td,
                  tbl_time_entries := te\<rparr>))))))))))))"

fun save_task_loop :: "engine \<Rightarrow> SQLiteDB \<Rightarrow> (string \<times> Task) list \<Rightarrow> error + SQLiteDB" where
  "save_task_loop eng db [] = Inr db"
| "save_task_loop eng db ((k, task) # rest) =
     (case save_task eng db task of
        Inl e \<Rightarrow> Inl e
      | Inr db' \<Rightarrow> save_task_loop eng db' rest)"

text \<open>
  The \<^verbatim>\<open>try\<close> block of \<open>SQLiteStorage.save_tasks\<close> up to the commit: the working state
  of the transaction, or the exception that leaves the block.
\<close>

definition SQLite_save_tasks_try :: "engine \<Rightarrow> SQLiteDB \<Rightarrow> (string \<times> Task) list \<Rightarrow> error + SQLiteDB" where
  "SQLite_save_tasks_try eng db tasks =
     (if \<not> readable db then Inl DatabaseError
      else save_task_loop eng
             (db\<lparr>tbl_tasks := [], tbl_task_categories := [], tbl_task_tags := [],
                 tbl_task_dependencies := [], tbl_time_entries := []\<rparr>) tasks)"

text \<open>
  \<open>SQLiteStorage.save_tasks\<close>: the commit makes the working state the database; on
  an exception the rollback drops the transaction and the database is as before.
\<close>

definition SQLite_save_tasks ::
  "engine \<Rightarrow> SQLiteDB \<Rightarrow> (string \<times> Task) list \<Rightarrow> SQLiteDB \<times> (error + bool)" where
  "SQLite_save_tasks eng db tasks =
     (case SQLite_save_tasks_try eng db tasks of
        Inr db' \<Rightarrow> (db', Inr True)
      | Inl e \<Rightarrow> (db, Inr False))"

text \<open>\<^verbatim>\<open>SELECT ... FROM t WHERE c = ?\<close> on a text column.\<close>

definition select_where :: "engine \<Rightarrow> row list \<Rightarrow> string \<Rightarrow> pyval \<Rightarrow> error + row list" where
  "select_where eng rows c v =
     (case bind_param v of
        Inl e \<Rightarrow> Inl e
      | Inr x \<Rightarrow> Inr (filter (\<lambda>r. sql_eq (column r c) (store eng TText x)) rows))"

text \<open>One round of the loop of \<open>SQLiteStorage.load_tasks\<close>.\<close>

definition load_task_row ::
  "engine \<Rightarrow> (pyval \<Rightarrow> Task) \<Rightarrow> SQLiteDB \<Rightarrow> row \<Rightarrow> error + (pyval \<times> Task)" where
  "load_task_row eng dflt db task_dict =
     (case dict_item task_dict ''id'' of
        Inl e \<Rightarrow> Inl e
      | Inr tid \<Rightarrow>
     (case select_where eng (tbl_task_categories db) ''task_id'' tid of
        Inl e \<Rightarrow> Inl e
      | Inr cs \<Rightarrow>
     (case select_where eng (tbl_task_tags db) ''task_id'' tid of
        Inl e \<Rightarrow> Inl e
      | Inr ts \<Rightarrow>
     (case select_where eng (tbl_task_dependencies db) ''task_id'' tid of
        Inl e \<Rightarrow> Inl e
      | Inr ds \<Rightarrow>
     (case select_where eng (tbl_time_entries db) ''task_id'' tid of
        Inl e \<Rightarrow> Inl e
      | Inr es \<Rightarrow>
          (let d1 = AList.update ''categories'' (PList (map (\<lambda>r. column r ''category'') cs)) task_dict;
               d2 = AList.update ''tags'' (PList (map (\<lambda>r. column r ''tag'') ts)) d1;
               d3 = AList.update ''depends_on'' (PList (map (\<lambda>r. column r ''depends_on_id'') ds)) d2;
               d4 = AList.update ''blocked_by'' (PList []) d3;
               d5 = AList.update ''time_entries'' (PList (map PDict es)) d4
           in
     (case dict_item d5 ''is_recurring'' of
        Inl e \<Rightarrow> Inl e
      | Inr recurring \<Rightarrow>
          (let d6 = AList.update ''is_recurring'' (PBool (truthy recurring)) d5 in
     (case dict_item d6 ''is_template'' of
        Inl e \<Rightarrow> Inl e
      | Inr template \<Rightarrow>
          (let d7 = AList.update ''is_template'' (PBool (truthy template)) d6 in
     (case Task_from_dict (dflt tid) (PDict d7) of
        Inl e \<Rightarrow> Inl e
      | Inr t \<Rightarrow> Inr (tid, t))))))))))))"

fun load_task_rows ::
  "engine \<Rightarrow> (pyval \<Rightarrow> Task) \<Rightarrow> SQLiteDB \<Rightarrow> row list \<Rightarrow> (pyval \<times> Task) list
     \<Rightarrow> error + (pyval \<times> Task) list" where
  "load_task_rows eng dflt db [] tasks = Inr tasks"
| "load_task_rows eng dflt db (r # rest) tasks =
     (case load_task_row eng dflt db r of
        Inl e \<Rightarrow> Inl e
      | Inr (k, t) \<Rightarrow> load_task_rows eng dflt db rest (AList.update k t tasks))"

text \<open>\<open>SQLiteStorage.load_tasks\<close>: there is no \<^verbatim>\<open>try\<close>; \<open>Inl\<close> is an exception reaching the caller.\<close>

definition SQLite_load_tasks ::
  "engine \<Rightarrow> (pyval \<Rightarrow> Task) \<Rightarrow> SQLiteDB \<Rightarrow> error + (pyval \<times> Task) list" where
  "SQLite_load_tasks eng dflt db =
     (if \<not> readable db then Inl DatabaseError
      else load_task_rows eng dflt db (tbl_tasks db) [])"





text \<open>One round of the loop of \<open>SQLiteStorage.load_templates\<close>.\<close>

definition load_template_row ::
  "engine \<Rightarrow> (pyval \<Rightarrow> TaskTemplate) \<Rightarrow> SQLiteDB \<Rightarrow> row \<Rightarrow> error + (pyval \<times> TaskTemplate)" where
  "load_template_row eng dflt db template_dict =
     (case dict_item template_dict ''id'' of
        Inl e \<Rightarrow> Inl e
      | Inr tid \<Rightarrow>
     (case select_where eng (tbl_template_categories db) ''template_id'' tid of
        Inl e \<Rightarrow> Inl e
      | Inr cs \<Rightarrow>
     (case select_where eng (tbl_template_tags db) ''template_id'' tid of
        Inl e \<Rightarrow> Inl e
      | Inr ts \<Rightarrow>
          (let d1 = AList.update ''categories'' (PList (map (\<lambda>r. column r ''category'') cs))
                      template_dict;
               d2 = AList.update ''tags'' (PList (map (\<lambda>r. column r ''tag'') ts)) d1
           in
     (case TaskTemplate_from_dict (dflt tid) (PDict d2) of
        Inl e \<Rightarrow> Inl e
      | Inr t \<Rightarrow> Inr (tid, t))))))"

fun load_template_rows ::
  "engine \<Rightarrow> (pyval \<Rightarrow> TaskTemplate) \<Rightarrow> SQLiteDB \<Rightarrow> row list \<Rightarrow> (pyval \<times> TaskTemplate) list
     \<Rightarrow> error + (pyval \<times> TaskTemplate) list" where
  "load_template_rows eng dflt db [] templates = Inr templates"
| "load_template_rows eng dflt db (r # rest) templates =
     (case load_template_row eng dflt db r of
        Inl e \<Rightarrow> Inl e
      | Inr (k, t) \<Rightarrow> load_template_rows eng dflt db rest (AList.update k t templates))"

definition SQLite_load_templates ::
  "engine \<Rightarrow> (pyval \<Rightarrow> TaskTemplate) \<Rightarrow> SQLiteDB \<Rightarrow> error + (pyval \<times> TaskTemplate) list" where
  "SQLite_load_templates eng dflt db =
     (if \<not> readable db then Inl DatabaseError
      else load_template_rows eng dflt db (tbl_templates db) [])"

section \<open>models.py and business_logic.py: reminders and recurrence\<close>

text \<open>
  A \<^verbatim>\<open>datetime\<close> is the number of microseconds since \<^verbatim>\<open>datetime.min\<close>
  (0001-01-01T00:00:00); one parsed from a string with a UTC offset is aware, any other
  is naive, as \<^verbatim>\<open>datetime.now()\<close> is. A \<^verbatim>\<open>timedelta\<close> is a number of microseconds.
  The text format of \<^verbatim>\<open>isoformat\<close> and \<^verbatim>\<open>fromisoformat\<close> and the float arithmetic of
  \<^verbatim>\<open>timedelta\<close> (the microseconds of \<open>r\<close> units of \<open>u\<close> microseconds) belong to the
  library and are parameters.
\<close>

datatype datetime = Naive int | Aware int

record pylib =
  fromisoformat :: "string \<Rightarrow> datetime option"
  isoformat :: "datetime \<Rightarrow> string"
  float_micros :: "int \<Rightarrow> real \<Rightarrow> int"

definition us_per_minute :: int where "us_per_minute = 60000000"
definition us_per_hour :: int where "us_per_hour = 3600000000"
definition us_per_day :: int where "us_per_day = 86400000000"

text \<open>\<^verbatim>\<open>datetime.max\<close> is 9999-12-31T23:59:59.999999, one microsecond before this bound.\<close>

definition datetime_end :: int where "datetime_end = 3652059 * 86400000000"

text \<open>\<^verbatim>\<open>datetime.fromisoformat(v)\<close>: TypeError unless \<open>v\<close> is a string, ValueError on a bad one.\<close>

definition py_fromisoformat :: "pylib \<Rightarrow> pyval \<Rightarrow> error + datetime" where
  "py_fromisoformat lib v =
     (case v of
        PStr s \<Rightarrow> (case fromisoformat lib s of None \<Rightarrow> Inl ValueError | Some d \<Rightarrow> Inr d)
      | _ \<Rightarrow> Inl TypeError)"

text \<open>
  \<^verbatim>\<open>timedelta(unit=v)\<close> for a unit of \<open>u\<close> microseconds: the days of a timedelta
  have magnitude at most 999999999; a value that is not a number is a TypeError.
\<close>

definition timedelta_range :: "int \<Rightarrow> error + int" where
  "timedelta_range us =
     (if - (999999999 * us_per_day) \<le> us \<and> us < 1000000000 * us_per_day then Inr us
      else Inl OverflowError)"

definition timedelta :: "pylib \<Rightarrow> int \<Rightarrow> pyval \<Rightarrow> error + int" where
  "timedelta lib u v =
     (case v of
        PInt i \<Rightarrow> timedelta_range (i * u)
      | PBool b \<Rightarrow> timedelta_range ((if b then 1 else 0) * u)
      | PFloat r \<Rightarrow> timedelta_range (float_micros lib u r)
      | _ \<Rightarrow> Inl TypeError)"

text \<open>\<^verbatim>\<open>d + timedelta\<close>: OverflowError outside \<^verbatim>\<open>datetime.min .. datetime.max\<close>.\<close>

definition datetime_add :: "datetime \<Rightarrow> int \<Rightarrow> error + datetime" where
  "datetime_add d us =
     (case d of
        Naive n \<Rightarrow> if 0 \<le> n + us \<and> n + us < datetime_end then Inr (Naive (n + us)) else Inl OverflowError
      | Aware n \<Rightarrow> if 0 \<le> n + us \<and> n + us < datetime_end then Inr (Aware (n + us)) else Inl OverflowError)"

text \<open>\<^verbatim>\<open>datetime.now() >= d\<close> and \<^verbatim>\<open>datetime.now() - d\<close>: a naive and an aware datetime do not mix.\<close>

definition now_ge :: "int \<Rightarrow> datetime \<Rightarrow> error + bool" where
  "now_ge now d = (case d of Naive n \<Rightarrow> Inr (n \<le> now) | Aware n \<Rightarrow> Inl TypeError)"

definition now_minus :: "int \<Rightarrow> datetime \<Rightarrow> error + int" where
  "now_minus now d = (case d of Naive n \<Rightarrow> Inr (now - n) | Aware n \<Rightarrow> Inl TypeError)"

text \<open>
  \<open>Task.needs_reminder\<close>. \<open>now1\<close> and \<open>now2\<close> are the two readings of
  \<^verbatim>\<open>datetime.now()\<close>, in the order of the calls.
\<close>

definition needs_reminder :: "pylib \<Rightarrow> Task \<Rightarrow> int \<Rightarrow> int \<Rightarrow> error + bool" where
  "needs_reminder lib self now1 now2 =
     (if \<not> truthy (due_date self) \<or> \<not> truthy (reminder_before_minutes self) then Inr False
      else if status self = PStr ''completed'' then Inr False
      else
     (case py_fromisoformat lib (due_date self) of
        Inl e \<Rightarrow> Inl e
      | Inr due \<Rightarrow>
     (case timedelta lib us_per_minute (reminder_before_minutes self) of
        Inl e \<Rightarrow> Inl e
      | Inr td \<Rightarrow>
     (case datetime_add due (- td) of
        Inl e \<Rightarrow> Inl e
      | Inr remind_time \<Rightarrow>
     (case now_ge now1 remind_time of
        Inl e \<Rightarrow> Inl e
      | Inr reached \<Rightarrow>
          if reached then
            (if truthy (last_reminded self) then
               (case py_fromisoformat lib (last_reminded self) of
                  Inl e \<Rightarrow> Inl e
                | Inr last_time \<Rightarrow>
                    (case now_minus now2 last_time of
                       Inl e \<Rightarrow> Inl e
                     | Inr since \<Rightarrow> if since < us_per_hour then Inr False else Inr True))
             else Inr True)
          else Inr False)))))"






section \<open>Auxiliary notions and example values\<close>

text \<open>An engine, an empty database, and values to run the operations on.\<close>

definition eng0 :: engine where
  "eng0 = \<lparr>coerce = (\<lambda>aff v. v), int_of_str = (\<lambda>s. None)\<rparr>"

definition db0 :: SQLiteDB where
  "db0 = \<lparr>readable = True, tbl_tasks = [], tbl_task_categories = [], tbl_task_tags = [],
     tbl_task_dependencies = [], tbl_time_entries = [], tbl_templates = [],
     tbl_template_categories = [], tbl_template_tags = []\<rparr>"

definition pdflt0 :: "pyval \<Rightarrow> Task" where
  "pdflt0 k = Task_default ''uuid-0'' ''2024-01-01T00:00:00'' ''2024-01-01T00:00:00''"

definition ptdflt0 :: "pyval \<Rightarrow> TaskTemplate" where
  "ptdflt0 k = TaskTemplate_default ''uuid-0''"




text \<open>A task with a category, a tag, a dependency, a completed and an active time entry.\<close>

definition entry_done :: "(string \<times> pyval) list" where
  "entry_done = [(''id'', PStr ''e1''), (''start_time'', PStr ''2024-01-01T09:00:00''),
     (''end_time'', PStr ''2024-01-01T09:30:00''), (''duration_minutes'', PFloat 30),
     (''notes'', PStr ''draft'')]"

definition entry_active :: "(string \<times> pyval) list" where
  "entry_active = [(''id'', PStr ''e2''), (''start_time'', PStr ''2024-01-02T09:00:00''),
     (''end_time'', PNone), (''duration_minutes'', PFloat 0), (''notes'', PStr [])]"

definition task1 :: Task where
  "task1 = (Task_default ''t1'' ''2024-01-01T08:00:00'' ''2024-01-01T08:00:00'')\<lparr>
     title := PStr ''Write report'', categories := PList [PStr ''work''],
     tags := PList [PStr ''q1''], depends_on := PList [PStr ''t0''],
     time_entries := PList [PDict entry_done, PDict entry_active]\<rparr>"

text \<open>The rows task1 is saved as, and the entries read back from them.\<close>

definition task1_row :: row where
  "task1_row = [(''id'', PStr ''t1''), (''title'', PStr ''Write report''),
     (''description'', PStr []), (''priority'', PStr ''medium''),
     (''status'', PStr ''pending''), (''created_at'', PStr ''2024-01-01T08:00:00''),
     (''updated_at'', PStr ''2024-01-01T08:00:00''), (''due_date'', PNone),
     (''completed_at'', PNone), (''is_recurring'', PInt 0), (''recurrence_type'', PNone),
     (''recurrence_interval'', PInt 1), (''last_recurrence'', PNone),
     (''estimated_minutes'', PNone), (''is_template'', PInt 0), (''template_name'', PNone),
     (''reminder_before_minutes'', PNone), (''last_reminded'', PNone)]"

definition entry_done_row :: row where
  "entry_done_row = [(''id'', PStr ''e1''), (''task_id'', PStr ''t1''),
     (''start_time'', PStr ''2024-01-01T09:00:00''), (''end_time'', PStr ''2024-01-01T09:30:00''),
     (''duration_minutes'', PFloat 30), (''notes'', PStr ''draft'')]"

definition entry_active_row :: row where
  "entry_active_row = [(''id'', PStr ''e2''), (''task_id'', PStr ''t1''),
     (''start_time'', PStr ''2024-01-02T09:00:00''), (''end_time'', PNone),
     (''duration_minutes'', PFloat 0), (''notes'', PStr [])]"

definition db1 :: SQLiteDB where
  "db1 = db0\<lparr>
     tbl_tasks := [task1_row],
     tbl_task_categories := [[(''task_id'', PStr ''t1''), (''category'', PStr ''work'')]],
     tbl_task_tags := [[(''task_id'', PStr ''t1''), (''tag'', PStr ''q1'')]],
     tbl_task_dependencies := [[(''task_id'', PStr ''t1''), (''depends_on_id'', PStr ''t0'')]],
     tbl_time_entries := [entry_done_row, entry_active_row]\<rparr>"

text \<open>The columns of a row of \<open>time_entries\<close>.\<close>

definition entry_row_keys :: "string list" where
  "entry_row_keys = [''id'', ''task_id'', ''start_time'', ''end_time'', ''duration_minutes'', ''notes'']"



text \<open>The document that \<open>save_tasks\<close> of the document store writes for a mapping.\<close>

definition tasks_document :: "(string \<times> Task) list \<Rightarrow> pyval" where
  "tasks_document tasks = PDict [(''tasks'', PDict (map (\<lambda>(k, t). (k, Task_to_dict t)) tasks))]"

text \<open>A storage whose tasks file holds task1, and a changed task1 to save over it.\<close>

definition st1 :: JSONStorage where
  "st1 = \<lparr>filepath = Doc (tasks_document [(''t1'', task1)]), templates_filepath = Missing\<rparr>"


text \<open>
  A library whose \<open>fromisoformat\<close> knows four timestamps of January 2024, and a
  recurring task to complete. 63839696400000000 is 2024-01-01T09:00:00 in microseconds
  since \<^verbatim>\<open>datetime.min\<close>.
\<close>

definition lib0 :: pylib where
  "lib0 = \<lparr>
     fromisoformat = (\<lambda>s.
       if s = ''2024-01-01T09:00:00'' then Some (Naive 63839696400000000)
       else if s = ''2024-01-01T10:00:00'' then Some (Naive 63839700000000000)
       else if s = ''2024-01-03T10:00:00'' then Some (Naive 63839872800000000)
       else if s = ''2024-01-01T09:30:00'' then Some (Naive 63839698200000000)
       else None),
     isoformat = (\<lambda>d.
       if d = Naive 63839696400000000 then ''2024-01-01T09:00:00''
       else if d = Naive 63839700000000000 then ''2024-01-01T10:00:00''
       else if d = Naive 63839872800000000 then ''2024-01-03T10:00:00''
       else if d = Naive 63839698200000000 then ''2024-01-01T09:30:00''
       else ''0001-01-01T00:00:00''),
     float_micros = (\<lambda>u r. \<lfloor>r * real_of_int u\<rfloor>) \<rparr>"

definition task2 :: Task where
  "task2 = (Task_default ''t2'' ''2024-01-01T08:00:00'' ''2024-01-01T08:00:00'')\<lparr>
     title := PStr ''Water plants'', due_date := PStr ''2024-01-01T10:00:00'',
     reminder_before_minutes := PInt 120, is_recurring := PBool True,
     recurrence_type := PStr ''daily'', recurrence_interval := PInt 2,
     time_entries := PList [PDict entry_done]\<rparr>"

text \<open>The defaults handed to \<open>from_dict\<close> in the examples.\<close>

definition dflt0 :: "string \<Rightarrow> Task" where
  "dflt0 k = Task_default ''uuid-0'' ''2024-01-01T00:00:00'' ''2024-01-01T00:00:00''"


section \<open>Properties of the codec\<close>

lemma Task_from_dict_to_dict: "Task_from_dict dflt (Task_to_dict t) = Inr t"
  by (simp add: Task_from_dict_def Task_to_dict_def Task_fields_def dict_get_def)












section \<open>Properties of the relational store\<close>

lemma update_not_Nil: "AList.update k v al \<noteq> []"
  by (cases al) auto

lemma load_task_rows_nonempty:
  "load_task_rows eng dflt db rows acc = Inr m \<Longrightarrow> rows \<noteq> [] \<or> acc \<noteq> [] \<Longrightarrow> m \<noteq> []"
proof (induction rows arbitrary: acc)
  case Nil then show ?case by simp
next
  case (Cons r rows)
  then show ?case
    by (auto split: sum.splits prod.splits simp: update_not_Nil)
qed

lemma load_template_rows_nonempty:
  "load_template_rows eng dflt db rows acc = Inr m \<Longrightarrow> rows \<noteq> [] \<or> acc \<noteq> [] \<Longrightarrow> m \<noteq> []"
proof (induction rows arbitrary: acc)
  case Nil then show ?case by simp
next
  case (Cons r rows)
  then show ?case
    by (auto split: sum.splits prod.splits simp: update_not_Nil)
qed

lemma load_task_rows_fail:
  "r \<in> set rows \<Longrightarrow> load_task_row eng dflt db r = Inl e \<Longrightarrow> \<exists>e'. load_task_rows eng dflt db rows acc = Inl e'"
  by (induction rows arbitrary: acc) (auto split: sum.splits prod.splits)

lemma load_template_rows_fail:
  "r \<in> set rows \<Longrightarrow> load_template_row eng dflt db r = Inl e \<Longrightarrow> \<exists>e'. load_template_rows eng dflt db rows acc = Inl e'"
  by (induction rows arbitrary: acc) (auto split: sum.splits prod.splits)

text \<open>
  C4. In the relational store a failure of \<open>load_tasks\<close> or \<open>load_templates\<close> reaches
  the caller as an exception: an unreadable database raises DatabaseError, a row that
  cannot be rebuilt makes the whole load raise, and the empty mapping is returned only
  when the table is empty.
\<close>

theorem sqlite_load_propagates_failure:
  "(\<not> readable db \<longrightarrow>
      SQLite_load_tasks eng dflt db = Inl DatabaseError
      \<and> SQLite_load_templates eng tdflt db = Inl DatabaseError)
   \<and> (\<forall>r e. r \<in> set (tbl_tasks db) \<and> load_task_row eng dflt db r = Inl e \<longrightarrow>
          (\<exists>e'. SQLite_load_tasks eng dflt db = Inl e'))
   \<and> (\<forall>r e. r \<in> set (tbl_templates db) \<and> load_template_row eng tdflt db r = Inl e \<longrightarrow>
          (\<exists>e'. SQLite_load_templates eng tdflt db = Inl e'))
   \<and> (SQLite_load_tasks eng dflt db = Inr [] \<longrightarrow> readable db \<and> tbl_tasks db = [])
   \<and> (SQLite_load_templates eng tdflt db = Inr [] \<longrightarrow> readable db \<and> tbl_templates db = [])"
proof (intro conjI allI impI)
  show "SQLite_load_tasks eng dflt db = Inl DatabaseError" if "\<not> readable db"
    using that by (simp add: SQLite_load_tasks_def)
  show "SQLite_load_templates eng tdflt db = Inl DatabaseError" if "\<not> readable db"
    using that by (simp add: SQLite_load_templates_def)
  show "\<exists>e'. SQLite_load_tasks eng dflt db = Inl e'"
    if "r \<in> set (tbl_tasks db) \<and> load_task_row eng dflt db r = Inl e" for r e
    using that load_task_rows_fail[of r "tbl_tasks db" eng dflt db e "[]"]
    by (auto simp: SQLite_load_tasks_def)
  show "\<exists>e'. SQLite_load_templates eng tdflt db = Inl e'"
    if "r \<in> set (tbl_templates db) \<and> load_template_row eng tdflt db r = Inl e" for r e
    using that load_template_rows_fail[of r "tbl_templates db" eng tdflt db e "[]"]
    by (auto simp: SQLite_load_templates_def)
  show "readable db" if "SQLite_load_tasks eng dflt db = Inr []"
    using that by (auto simp: SQLite_load_tasks_def split: if_splits)
  show "tbl_tasks db = []" if "SQLite_load_tasks eng dflt db = Inr []"
    using that load_task_rows_nonempty[of eng dflt db "tbl_tasks db" "[]" "[]"]
    by (auto simp: SQLite_load_tasks_def split: if_splits)
  show "readable db" if "SQLite_load_templates eng tdflt db = Inr []"
    using that by (auto simp: SQLite_load_templates_def split: if_splits)
  show "tbl_templates db = []" if "SQLite_load_templates eng tdflt db = Inr []"
    using that load_template_rows_nonempty[of eng tdflt db "tbl_templates db" "[]" "[]"]
    by (auto simp: SQLite_load_templates_def split: if_splits)
qed

theorem sqlite_load_propagates_failure_witness:
  "\<not> readable (db0\<lparr>readable := False\<rparr>)
   \<and> SQLite_load_tasks eng0 pdflt0 (db0\<lparr>readable := False\<rparr>) = Inl DatabaseError
   \<and> SQLite_load_templates eng0 ptdflt0 (db0\<lparr>readable := False\<rparr>) = Inl DatabaseError
   \<and> load_task_row eng0 pdflt0 (db0\<lparr>tbl_tasks := [[(''id'', PStr ''t1'')]]\<rparr>) [(''id'', PStr ''t1'')] = Inl KeyError
   \<and> (\<exists>e. SQLite_load_tasks eng0 pdflt0 (db0\<lparr>tbl_tasks := [[(''id'', PStr ''t1'')]]\<rparr>) = Inl e)
   \<and> load_template_row eng0 ptdflt0 (db0\<lparr>tbl_templates := [[(''name'', PStr ''n'')]]\<rparr>) [(''name'', PStr ''n'')] = Inl KeyError
   \<and> (\<exists>e. SQLite_load_templates eng0 ptdflt0 (db0\<lparr>tbl_templates := [[(''name'', PStr ''n'')]]\<rparr>) = Inl e)
   \<and> SQLite_load_tasks eng0 pdflt0 db0 = Inr [] \<and> SQLite_load_templates eng0 ptdflt0 db0 = Inr []
   \<and> readable db0 \<and> tbl_tasks db0 = [] \<and> tbl_templates db0 = []"
proof -
  have a: "load_task_row eng0 pdflt0 (db0\<lparr>tbl_tasks := [[(''id'', PStr ''t1'')]]\<rparr>) [(''id'', PStr ''t1'')] = Inl KeyError"
    by (simp add: load_task_row_def dict_item_def select_where_def bind_param_def db0_def)
  have b: "load_template_row eng0 ptdflt0 (db0\<lparr>tbl_templates := [[(''name'', PStr ''n'')]]\<rparr>) [(''name'', PStr ''n'')] = Inl KeyError"
    by (simp add: load_template_row_def dict_item_def)
  have c: "SQLite_load_tasks eng0 pdflt0 db0 = Inr []" "SQLite_load_templates eng0 ptdflt0 db0 = Inr []"
    by (simp_all add: SQLite_load_tasks_def SQLite_load_templates_def db0_def)
  have d: "tbl_tasks (db0\<lparr>tbl_tasks := [[(''id'', PStr ''t1'')]]\<rparr>) = [[(''id'', PStr ''t1'')]]"
    "tbl_templates (db0\<lparr>tbl_templates := [[(''name'', PStr ''n'')]]\<rparr>) = [[(''name'', PStr ''n'')]]"
    by simp_all
  show ?thesis
    using sqlite_load_propagates_failure[of "db0\<lparr>readable := False\<rparr>" eng0 pdflt0 ptdflt0]
      sqlite_load_propagates_failure[of "db0\<lparr>tbl_tasks := [[(''id'', PStr ''t1'')]]\<rparr>" eng0 pdflt0 ptdflt0]
      sqlite_load_propagates_failure[of "db0\<lparr>tbl_templates := [[(''name'', PStr ''n'')]]\<rparr>" eng0 pdflt0 ptdflt0]
      sqlite_load_propagates_failure[of db0 eng0 pdflt0 ptdflt0]
      a b c d
    by (simp add: db0_def) 
qed

lemma update_fresh: "k \<notin> fst ` set al \<Longrightarrow> AList.update k v al = al @ [(k, v)]"
  by (induction al) auto









lemma save_task1: "SQLite_save_tasks eng0 db0 [(''t1'', task1)] = (db1, Inr True)"
  by (simp add: SQLite_save_tasks_def SQLite_save_tasks_try_def save_task_def db0_def db1_def
      task1_def Task_default_def py_int_def make_row_def bind_param_def tasks_columns_def store_def
      not_null_ok_def unique_ok_def column_def dict_get_def py_iter_def task_categories_columns_def
      task_tags_columns_def task_dependencies_columns_def time_entries_columns_def entry_done_def
      entry_active_def dict_item_def sql_eq_def task1_row_def entry_done_row_def entry_active_row_def)

lemma load_task1:
  "SQLite_load_tasks eng0 pdflt0 db1 =
     Inr [(PStr ''t1'', task1\<lparr>time_entries := PList [PDict entry_done_row, PDict entry_active_row]\<rparr>)]"
  by (simp add: SQLite_load_tasks_def db1_def db0_def load_task_row_def task1_row_def dict_item_def
      select_where_def bind_param_def store_def sql_eq_def column_def dict_get_def
      entry_done_row_def entry_active_row_def Task_from_dict_def Task_fields_def task1_def
      Task_default_def)

lemma Task_from_dict_sel:
  assumes "Task_from_dict dflt (PDict kvs) = Inr t"
  shows "task_id t = dict_get kvs ''id'' (task_id dflt)"
    and "title t = dict_get kvs ''title'' (title dflt)"
    and "description t = dict_get kvs ''description'' (description dflt)"
    and "priority t = dict_get kvs ''priority'' (priority dflt)"
    and "status t = dict_get kvs ''status'' (status dflt)"
    and "created_at t = dict_get kvs ''created_at'' (created_at dflt)"
    and "updated_at t = dict_get kvs ''updated_at'' (updated_at dflt)"
    and "due_date t = dict_get kvs ''due_date'' (due_date dflt)"
    and "completed_at t = dict_get kvs ''completed_at'' (completed_at dflt)"
    and "categories t = dict_get kvs ''categories'' (categories dflt)"
    and "tags t = dict_get kvs ''tags'' (tags dflt)"
    and "is_recurring t = dict_get kvs ''is_recurring'' (is_recurring dflt)"
    and "recurrence_type t = dict_get kvs ''recurrence_type'' (recurrence_type dflt)"
    and "recurrence_interval t = dict_get kvs ''recurrence_interval'' (recurrence_interval dflt)"
    and "last_recurrence t = dict_get kvs ''last_recurrence'' (last_recurrence dflt)"
    and "depends_on t = dict_get kvs ''depends_on'' (depends_on dflt)"
    and "blocked_by t = dict_get kvs ''blocked_by'' (blocked_by dflt)"
    and "time_entries t = dict_get kvs ''time_entries'' (time_entries dflt)"
    and "estimated_minutes t = dict_get kvs ''estimated_minutes'' (estimated_minutes dflt)"
    and "is_template t = dict_get kvs ''is_template'' (is_template dflt)"
    and "template_name t = dict_get kvs ''template_name'' (template_name dflt)"
    and "reminder_before_minutes t = dict_get kvs ''reminder_before_minutes'' (reminder_before_minutes dflt)"
    and "last_reminded t = dict_get kvs ''last_reminded'' (last_reminded dflt)"
  using assms by (auto simp: Task_from_dict_def split: if_splits)

lemma in_set_update: "x \<in> set (AList.update k v al) \<Longrightarrow> x = (k, v) \<or> x \<in> set al"
  by (induction al) (auto split: if_splits)

lemma load_task_rows_mem:
  "load_task_rows eng dflt db rows acc = Inr m \<Longrightarrow> (k, t) \<in> set m \<Longrightarrow>
     (k, t) \<in> set acc \<or> (\<exists>r \<in> set rows. load_task_row eng dflt db r = Inr (k, t))"
proof (induction rows arbitrary: acc)
  case Nil then show ?case by simp
next
  case (Cons r rows)
  from Cons.prems(1) obtain k' t' where r: "load_task_row eng dflt db r = Inr (k', t')"
    and l: "load_task_rows eng dflt db rows (AList.update k' t' acc) = Inr m"
    by (auto split: sum.splits prod.splits)
  from Cons.IH[OF l Cons.prems(2)] show ?case
    using r in_set_update[of "(k, t)" k' t' acc] by auto
qed

lemma d7_lookup:
  "map_of (AList.update ''is_template'' a (AList.update ''is_recurring'' b
      (AList.update ''time_entries'' X d))) ''time_entries'' = Some X"
  by (simp add: update_conv')

lemma load_task_row_select:
  assumes "load_task_row eng dflt db row = Inr (k, t)"
  shows "\<exists>tid es. select_where eng (tbl_time_entries db) ''task_id'' tid = Inr es
           \<and> time_entries t = PList (map PDict es)"
  using assms unfolding load_task_row_def Let_def
  apply (auto split: sum.splits simp: dict_get_def d7_lookup dest!: Task_from_dict_sel(18))
  apply blast
  done

lemma load_task_row_entries:
  assumes "load_task_row eng dflt db row = Inr (k, t)"
  shows "\<exists>es. set es \<subseteq> set (tbl_time_entries db) \<and> time_entries t = PList (map PDict es)"
proof -
  from load_task_row_select[OF assms] obtain tid es where
    es: "select_where eng (tbl_time_entries db) ''task_id'' tid = Inr es"
    and t: "time_entries t = PList (map PDict es)" by blast
  from es have "set es \<subseteq> set (tbl_time_entries db)"
    by (auto simp: select_where_def split: sum.splits)
  with t show ?thesis by blast
qed

lemma bind_all_length: "bind_all vs = Inr xs \<Longrightarrow> length xs = length vs"
  by (induction vs arbitrary: xs) (auto split: sum.splits)

lemma make_row_keys:
  "make_row eng cols params = Inr r \<Longrightarrow> length params = length cols \<Longrightarrow> map fst r = map fst cols"
  by (auto simp: make_row_def split: sum.splits dest!: bind_all_length)

lemma insert_time_entries_keys:
  "insert_time_entries eng owner es rows = Inr rows' \<Longrightarrow>
   \<forall>r \<in> set rows. map fst r = entry_row_keys \<Longrightarrow> \<forall>r \<in> set rows'. map fst r = entry_row_keys"
proof (induction es arbitrary: rows)
  case Nil then show ?case by simp
next
  case (Cons entry es)
  from Cons.prems(1) obtain r where r: "map fst r = map fst time_entries_columns"
    and l: "insert_time_entries eng owner es (rows @ [r]) = Inr rows'"
    by (auto split: pyval.splits sum.splits if_splits dest!: make_row_keys simp: time_entries_columns_def)
  from r have "map fst r = entry_row_keys" by (simp add: time_entries_columns_def entry_row_keys_def)
  with Cons.prems(2) have "\<forall>r \<in> set (rows @ [r]). map fst r = entry_row_keys" by simp
  from Cons.IH[OF l this] show ?case .
qed

lemma save_task_keys:
  "save_task eng db task = Inr db' \<Longrightarrow>
   \<forall>r \<in> set (tbl_time_entries db). map fst r = entry_row_keys \<Longrightarrow>
   \<forall>r \<in> set (tbl_time_entries db'). map fst r = entry_row_keys"
  unfolding save_task_def
  by (auto split: sum.splits if_splits dest: insert_time_entries_keys)

lemma save_task_loop_keys:
  "save_task_loop eng db tasks = Inr db' \<Longrightarrow>
   \<forall>r \<in> set (tbl_time_entries db). map fst r = entry_row_keys \<Longrightarrow>
   \<forall>r \<in> set (tbl_time_entries db'). map fst r = entry_row_keys"
proof (induction tasks arbitrary: db)
  case Nil then show ?case by simp
next
  case (Cons a tasks)
  obtain k task where a: "a = (k, task)" by (cases a)
  from Cons.prems(1) a obtain db1 where s: "save_task eng db task = Inr db1"
    and l: "save_task_loop eng db1 tasks = Inr db'" by (auto split: sum.splits)
  from Cons.IH[OF l save_task_keys[OF s Cons.prems(2)]] show ?case .
qed

lemma entry_row_rejected:
  "map fst r = entry_row_keys \<Longrightarrow> TimeEntry_from_dict d (PDict r) = Inl TypeError"
  by (simp add: TimeEntry_from_dict_def entry_row_keys_def TimeEntry_fields_def)

text \<open>
  C10. After a successful \<open>save_tasks\<close> of the relational store, every element of the
  \<open>time_entries\<close> of every loaded task is a whole row of the table: it has the key
  \<open>task_id\<close> besides the five TimeEntry fields, and \<open>TimeEntry.from_dict\<close> raises
  TypeError on it.
\<close>

theorem loaded_time_entries_carry_task_id:
  assumes "SQLite_save_tasks eng db tasks = (db', Inr True)"
      and "SQLite_load_tasks eng dflt db' = Inr loaded"
      and "(k, t) \<in> set loaded"
  shows "\<exists>rows. time_entries t = PList (map PDict rows)
           \<and> (\<forall>r \<in> set rows.
                 map fst r = [''id'', ''task_id'', ''start_time'', ''end_time'', ''duration_minutes'', ''notes'']
                 \<and> TimeEntry_from_dict d (PDict r) = Inl TypeError)"
proof -
  from assms(1) have "save_task_loop eng
             (db\<lparr>tbl_tasks := [], tbl_task_categories := [], tbl_task_tags := [],
                 tbl_task_dependencies := [], tbl_time_entries := []\<rparr>) tasks = Inr db'"
    by (auto simp: SQLite_save_tasks_def SQLite_save_tasks_try_def split: sum.splits if_splits)
  from save_task_loop_keys[OF this] have keys: "\<forall>r \<in> set (tbl_time_entries db'). map fst r = entry_row_keys"
    by simp
  from assms(2) have "load_task_rows eng dflt db' (tbl_tasks db') [] = Inr loaded"
    by (simp add: SQLite_load_tasks_def split: if_splits)
  from load_task_rows_mem[OF this assms(3)] obtain row where "load_task_row eng dflt db' row = Inr (k, t)"
    by auto
  from load_task_row_entries[OF this] obtain es where es: "set es \<subseteq> set (tbl_time_entries db')"
    "time_entries t = PList (map PDict es)" by blast
  from es(1) keys have "\<forall>r \<in> set es. map fst r = entry_row_keys" by blast
  then have "\<forall>r \<in> set es. map fst r = [''id'', ''task_id'', ''start_time'', ''end_time'', ''duration_minutes'', ''notes'']
       \<and> TimeEntry_from_dict d (PDict r) = Inl TypeError"
    using entry_row_rejected by (auto simp: entry_row_keys_def)
  with es(2) show ?thesis by blast
qed

theorem loaded_time_entries_carry_task_id_witness:
  "SQLite_save_tasks eng0 db0 [(''t1'', task1)] = (db1, Inr True)
   \<and> SQLite_load_tasks eng0 pdflt0 db1
       = Inr [(PStr ''t1'', task1\<lparr>time_entries := PList [PDict entry_done_row, PDict entry_active_row]\<rparr>)]
   \<and> (\<exists>rows. rows \<noteq> [] \<and> time_entries (task1\<lparr>time_entries := PList [PDict entry_done_row, PDict entry_active_row]\<rparr>)
                 = PList (map PDict rows)
         \<and> (\<forall>r \<in> set rows.
               map fst r = [''id'', ''task_id'', ''start_time'', ''end_time'', ''duration_minutes'', ''notes'']
               \<and> TimeEntry_from_dict (TimeEntry_default ''uuid-0'' ''2024-01-01T00:00:00'') (PDict r) = Inl TypeError))"
proof -
  have m: "(PStr ''t1'', task1\<lparr>time_entries := PList [PDict entry_done_row, PDict entry_active_row]\<rparr>)
      \<in> set [(PStr ''t1'', task1\<lparr>time_entries := PList [PDict entry_done_row, PDict entry_active_row]\<rparr>)]"
    by simp
  from loaded_time_entries_carry_task_id[OF save_task1 load_task1 m,
      of "TimeEntry_default ''uuid-0'' ''2024-01-01T00:00:00''"]
  obtain rows where rows: "time_entries (task1\<lparr>time_entries := PList [PDict entry_done_row, PDict entry_active_row]\<rparr>)
                 = PList (map PDict rows)"
      "\<forall>r \<in> set rows.
               map fst r = [''id'', ''task_id'', ''start_time'', ''end_time'', ''duration_minutes'', ''notes'']
               \<and> TimeEntry_from_dict (TimeEntry_default ''uuid-0'' ''2024-01-01T00:00:00'') (PDict r) = Inl TypeError"
    by blast
  from rows(1) have "rows \<noteq> []" by auto
  with rows save_task1 load_task1 show ?thesis by blast
qed

section \<open>Saving and loading again\<close>

lemma decode_tasks_roundtrip:
  "distinct (map fst M) \<Longrightarrow> fst ` set acc \<inter> fst ` set M = {} \<Longrightarrow>
   decode_tasks dflt (map (\<lambda>(k, t). (k, Task_to_dict t)) M) acc = Inr (acc @ M)"
proof (induction M arbitrary: acc)
  case Nil then show ?case by simp
next
  case (Cons a M)
  obtain k t where a: "a = (k, t)" by (cases a)
  from Cons.prems a have fresh: "k \<notin> fst ` set acc" by auto
  have "fst ` set (acc @ [(k, t)]) \<inter> fst ` set M = {}"
    using Cons.prems a by auto
  moreover have "distinct (map fst M)" using Cons.prems by simp
  ultimately have "decode_tasks dflt (map (\<lambda>(k, t). (k, Task_to_dict t)) M) (acc @ [(k, t)])
      = Inr ((acc @ [(k, t)]) @ M)" by (rule Cons.IH[rotated])
  then show ?case
    by (simp add: a Task_from_dict_to_dict update_fresh[OF fresh])
qed

lemma encodable_tasks:
  "encodable (tasks_document M) = list_all (\<lambda>kt. encodable (Task_to_dict (snd kt))) M"
  unfolding tasks_document_def by (induction M) (auto simp: case_prod_beta)

lemma JSON_save_tasks_cases:
  "JSON_save_tasks w st tasks =
     (if \<not> encodable (tasks_document tasks) then (st, Inr False)
      else case w of
             Written \<Rightarrow> (st\<lparr>filepath := Doc (tasks_document tasks)\<rparr>, Inr True)
           | OpenFailed \<Rightarrow> (st, Inr False)
           | WriteFailed \<Rightarrow> (st\<lparr>filepath := Garbage\<rparr>, Inr False))"
  by (cases w) (simp_all add: JSON_save_tasks_def JSON_save_tasks_try_def json_dumps_def
      write_text_def tasks_document_def del: encodable.simps)

lemma JSON_load_tasks_document:
  assumes "distinct (map fst tasks)"
  shows "JSON_load_tasks dflt (st\<lparr>filepath := Doc (tasks_document tasks)\<rparr>) = Inr tasks"
proof -
  have "decode_tasks dflt (map (\<lambda>(k, t). (k, Task_to_dict t)) tasks) [] = Inr ([] @ tasks)"
    by (rule decode_tasks_roundtrip) (use assms in auto)
  then show ?thesis
    by (simp add: JSON_load_tasks_def JSON_load_tasks_try_def read_json_def py_get_def
        py_items_def dict_get_def tasks_document_def)
qed


lemma encodable_task1: "encodable (Task_to_dict task1)"
  by (simp add: Task_to_dict_def task1_def Task_default_def entry_done_def entry_active_def)




text \<open>
  C1. The document store gives task1 back unchanged. The relational store does not:
  saved into an empty database and loaded again, each of its time entries has gained
  the key \<open>task_id\<close>, so the loaded task differs from task1.
\<close>

theorem relational_roundtrip_alters_time_entries:
  "JSON_save_tasks Written st1 [(''t1'', task1)]
     = (st1\<lparr>filepath := Doc (tasks_document [(''t1'', task1)])\<rparr>, Inr True)
   \<and> JSON_load_tasks dflt0 (st1\<lparr>filepath := Doc (tasks_document [(''t1'', task1)])\<rparr>)
     = Inr [(''t1'', task1)]
   \<and> SQLite_save_tasks eng0 db0 [(''t1'', task1)] = (db1, Inr True)
   \<and> SQLite_load_tasks eng0 pdflt0 db1
     = Inr [(PStr ''t1'', task1\<lparr>time_entries := PList [PDict entry_done_row, PDict entry_active_row]\<rparr>)]
   \<and> map_of entry_done ''task_id'' = None
   \<and> map_of entry_done_row ''task_id'' = Some (PStr ''t1'')
   \<and> task1\<lparr>time_entries := PList [PDict entry_done_row, PDict entry_active_row]\<rparr> \<noteq> task1"
proof -
  have e: "encodable (tasks_document [(''t1'', task1)])"
    by (simp add: encodable_tasks encodable_task1 del: encodable.simps)
  have a: "JSON_save_tasks Written st1 [(''t1'', task1)]
     = (st1\<lparr>filepath := Doc (tasks_document [(''t1'', task1)])\<rparr>, Inr True)"
    by (simp add: JSON_save_tasks_cases e)
  have b: "JSON_load_tasks dflt0 (st1\<lparr>filepath := Doc (tasks_document [(''t1'', task1)])\<rparr>)
     = Inr [(''t1'', task1)]"
    by (rule JSON_load_tasks_document) simp
  have c: "map_of entry_done ''task_id'' = None" "map_of entry_done_row ''task_id'' = Some (PStr ''t1'')"
    by (simp_all add: entry_done_def entry_done_row_def)
  have "time_entries (task1\<lparr>time_entries := PList [PDict entry_done_row, PDict entry_active_row]\<rparr>)
      \<noteq> time_entries task1"
    by (simp add: task1_def entry_done_def entry_done_row_def)
  then have d: "task1\<lparr>time_entries := PList [PDict entry_done_row, PDict entry_active_row]\<rparr> \<noteq> task1"
    by metis
  from a b c d save_task1 load_task1 show ?thesis by simp
qed

section \<open>Atomicity of saving\<close>




section \<open>Reminders and recurrence\<close>

text \<open>
  C7. A task that is due one hour after \<open>now\<close>, with a reminder 120 minutes ahead, a
  status other than completed and no \<open>last_reminded\<close>, needs a reminder at \<open>now\<close>;
  once \<open>last_reminded\<close> is the timestamp of \<open>now\<close>, every call of
  \<open>needs_reminder\<close> whose clock reads less than one hour after \<open>now\<close> returns False.
  (\<open>now\<close> is a datetime at least one hour after \<^verbatim>\<open>datetime.min\<close>, so that the time
  of the reminder exists.)
\<close>

theorem reminder_scenario:
  assumes "due_date t = PStr D" and "D \<noteq> []"
      and "fromisoformat lib D = Some (Naive (now + us_per_hour))"
      and "reminder_before_minutes t = PInt 120"
      and "status t \<noteq> PStr ''completed''"
      and "last_reminded t = PNone"
      and "us_per_hour \<le> now" and "now < datetime_end"
      and "L \<noteq> []" and "fromisoformat lib L = Some (Naive now)"
      and "later2 - now < us_per_hour"
  shows "needs_reminder lib t now now2 = Inr True
         \<and> needs_reminder lib (t\<lparr>last_reminded := PStr L\<rparr>) later1 later2 = Inr False"
proof -
  have td: "timedelta lib us_per_minute (PInt 120) = Inr (2 * us_per_hour)"
    by (simp add: timedelta_def timedelta_range_def us_per_minute_def us_per_hour_def us_per_day_def)
  have rt: "datetime_add (Naive (now + us_per_hour)) (- (2 * us_per_hour)) = Inr (Naive (now - us_per_hour))"
    using assms(7,8) by (simp add: datetime_add_def us_per_hour_def datetime_end_def)
  have ge: "now_ge now (Naive (now - us_per_hour)) = Inr True"
    by (simp add: now_ge_def us_per_hour_def)
  have first: "needs_reminder lib t now now2 = Inr True"
    using assms(1-6) by (simp add: needs_reminder_def py_fromisoformat_def td rt ge)
  have second: "needs_reminder lib (t\<lparr>last_reminded := PStr L\<rparr>) later1 later2 = Inr False"
    using assms(1-5,9-11)
    by (simp add: needs_reminder_def py_fromisoformat_def td rt now_ge_def now_minus_def)
  from first second show ?thesis by simp
qed

theorem reminder_scenario_witness:
  "due_date task2 = PStr ''2024-01-01T10:00:00''
   \<and> fromisoformat lib0 ''2024-01-01T10:00:00'' = Some (Naive (63839696400000000 + us_per_hour))
   \<and> reminder_before_minutes task2 = PInt 120 \<and> status task2 \<noteq> PStr ''completed''
   \<and> last_reminded task2 = PNone
   \<and> fromisoformat lib0 ''2024-01-01T09:00:00'' = Some (Naive 63839696400000000)
   \<and> needs_reminder lib0 task2 63839696400000000 63839696400000001 = Inr True
   \<and> needs_reminder lib0 (task2\<lparr>last_reminded := PStr ''2024-01-01T09:00:00''\<rparr>)
        63839698200000000 63839698200000001 = Inr False"
proof -
  have h1: "due_date task2 = PStr ''2024-01-01T10:00:00''" by (simp add: task2_def)
  have h2: "''2024-01-01T10:00:00'' \<noteq> []" by simp
  have h3: "fromisoformat lib0 ''2024-01-01T10:00:00'' = Some (Naive (63839696400000000 + us_per_hour))"
    by (simp add: lib0_def us_per_hour_def)
  have h4: "reminder_before_minutes task2 = PInt 120" by (simp add: task2_def)
  have h5: "status task2 \<noteq> PStr ''completed''" by (simp add: task2_def Task_default_def)
  have h6: "last_reminded task2 = PNone" by (simp add: task2_def Task_default_def)
  have h7: "us_per_hour \<le> 63839696400000000" by (simp add: us_per_hour_def)
  have h8: "(63839696400000000::int) < datetime_end" by (simp add: datetime_end_def)
  have h9: "''2024-01-01T09:00:00'' \<noteq> []" by simp
  have h10: "fromisoformat lib0 ''2024-01-01T09:00:00'' = Some (Naive 63839696400000000)"
    by (simp add: lib0_def)
  have h11: "63839698200000001 - 63839696400000000 < us_per_hour" by (simp add: us_per_hour_def)
  from reminder_scenario[OF h1 h2 h3 h4 h5 h6 h7 h8 h9 h10 h11, of 63839696400000001 63839698200000000]
    h1 h3 h4 h5 h6 h10
  show ?thesis by simp
qed





end
